theory Spec2Isabelle
  imports Main "HOL-Library.FSet" "HOL-Library.Finite_Map" "HOL-Library.AList"
begin

section \<open>Values, columns and rows\<close>

text \<open>
  The store of \<^verbatim>\<open>django_cassandra_fake/connection.py\<close> keeps Python values in
  dictionaries. The value universe of the model is the one CQL columns hold: a scalar
  (\<^verbatim>\<open>None\<close>, an integer, a text) or a one-level container of scalars (a list, a set,
  a dict). Python's \<^verbatim>\<open>==\<close> on these values is structural equality, which is HOL's
  equality on \<open>val\<close>; floats, booleans and calendar types are not part of the universe.

  Every value that is handed to the store from outside (the values of an insert, a
  filter value, the operand of an assignment) is a Python object of its own, which the
  caller does not keep or pass a second time. Inside the store objects are shared as
  the code shares them: \<^verbatim>\<open>Table.update\<close> stores one operand object in every row it
  matches and changes lists, sets and dicts in place.
\<close>

datatype scalar = SNone | SInt int | SStr string

datatype val =
    Scalar scalar
  | VList "scalar list"
  | VSet "scalar fset"
  | VMap "(scalar, scalar) fmap"

abbreviation PyNone :: val where
  "PyNone \<equiv> Scalar SNone"

abbreviation VInt :: "int \<Rightarrow> val" where
  "VInt n \<equiv> Scalar (SInt n)"

abbreviation VStr :: "string \<Rightarrow> val" where
  "VStr s \<equiv> Scalar (SStr s)"

text \<open>
  The exceptions the modelled code raises. \<open>Unmodelled\<close> is not a Python exception: it
  marks the few dynamically typed operand combinations whose Python result depends on
  the iteration order of a set or dict (or on string containment), which the value
  universe above does not carry.
\<close>

datatype error =
    LWTException
  | CQLEngineException
  | KeyError
  | IndexError
  | TypeError
  | AttributeError
  | ValueError
  | Unmodelled

text \<open>
  A cqlengine column, as far as the store reads it: its \<^verbatim>\<open>db_field_name\<close>, its
  \<^verbatim>\<open>primary_key\<close> flag and its class (\<^verbatim>\<open>List\<close>, \<^verbatim>\<open>Set\<close>, \<^verbatim>\<open>Map\<close>,
  \<^verbatim>\<open>DateTime\<close>, \<^verbatim>\<open>Date\<close>, or any other column class).
\<close>

datatype coltype = ColList | ColSet | ColMap | ColDateTime | ColDate | ColOther

record column =
  db_field_name :: string
  primary_key :: bool
  col_type :: coltype

text \<open>A row as Python reads it: the value under each column name.\<close>

type_synonym vrow = "string \<rightharpoonup> val"

text \<open>
  A cell of a stored row refers to a Python object. \<open>Own v\<close> is an object that this
  cell alone refers to, so it behaves as the value \<open>v\<close>. \<open>Shared a\<close> is a reference
  to the object at address \<open>a\<close> of the table's operand store: an operand that
  \<^verbatim>\<open>Table.update\<close> stored, by reference, in every row it matched.
\<close>

datatype cellv = Own val | Shared nat

type_synonym row = "string \<rightharpoonup> cellv"

text \<open>A Python dict that the code iterates (\<^verbatim>\<open>kwargs.items()\<close>), in insertion order.\<close>

type_synonym pydict = "(string \<times> val) list"

section \<open>Table\<close>

text \<open>
  \<^verbatim>\<open>class Table\<close>: the fields set by \<^verbatim>\<open>__init__\<close>. The lock is not modelled: every
  operation below is one critical section. The last two fields are the part of
  Python's heap that the rows of this table refer to: the operand objects that
  \<^verbatim>\<open>Table.update\<close> received, by address, and the next free address.
\<close>

record table =
  tname :: string
  columns :: "(string \<times> column) list"
  column_names :: "string set"
  db_map :: "string \<rightharpoonup> string"
  primary_key_names :: "string set"
  entries :: "row list"
  objects :: "nat \<Rightarrow> val"
  next_ref :: nat

definition Table_init :: "string \<Rightarrow> (string \<times> column) list \<Rightarrow> (string \<rightharpoonup> string) \<Rightarrow> table" where
  "Table_init n cols dm =
     \<lparr> tname = n,
       columns = cols,
       column_names = set (map (\<lambda>(k, c). db_field_name c) cols),
       db_map = dm,
       primary_key_names = set (map fst (filter (\<lambda>(k, c). primary_key c) cols)),
       entries = [],
       objects = (\<lambda>a. PyNone),
       next_ref = 0 \<rparr>"

text \<open>The value a cell denotes, and the stored rows as Python reads them.\<close>

fun deref :: "(nat \<Rightarrow> val) \<Rightarrow> cellv \<Rightarrow> val" where
  "deref objs (Own v) = v"
| "deref objs (Shared a) = objs a"

definition row_values :: "table \<Rightarrow> row \<Rightarrow> vrow" where
  "row_values t e = (\<lambda>k. map_option (deref (objects t)) (e k))"

definition entry_values :: "table \<Rightarrow> vrow list" where
  "entry_values t = map (row_values t) (entries t)"

text \<open>\<^verbatim>\<open>dict.get(key, key)\<close> on the alias map.\<close>

definition db_map_get :: "(string \<rightharpoonup> string) \<Rightarrow> string \<Rightarrow> string" where
  "db_map_get dm k = (case dm k of Some k' \<Rightarrow> k' | None \<Rightarrow> k)"

text \<open>
  \<^verbatim>\<open>Table._find_by_pk(*pks)\<close>: the rows are scanned in order; for each row every
  primary-key name is compared (the inner loop has no \<^verbatim>\<open>break\<close>), so a row lacking a
  primary-key name raises \<^verbatim>\<open>KeyError\<close>. The positional values \<^verbatim>\<open>pks\<close> are zipped
  with the primary-key names; the model passes that pairing as a map \<open>p\<close>.
\<close>

fun find_by_pk_loop :: "string set \<Rightarrow> vrow \<Rightarrow> vrow list \<Rightarrow> nat \<Rightarrow> error + nat option" where
  "find_by_pk_loop pks p [] idx = Inr None"
| "find_by_pk_loop pks p (e # es) idx =
     (if \<exists>pk\<in>pks. e pk = None then Inl KeyError
      else if \<forall>pk\<in>pks. e pk = p pk then Inr (Some idx)
      else find_by_pk_loop pks p es (Suc idx))"

definition find_by_pk :: "table \<Rightarrow> vrow \<Rightarrow> error + nat option" where
  "find_by_pk t p = find_by_pk_loop (primary_key_names t) p (entry_values t) 0"

text \<open>\<^verbatim>\<open>Table._default_value\<close>: the table \<^verbatim>\<open>{List: [], Set: set(), Map: {}}\<close>, looked up
  by the class of the column the alias map resolves the name to.\<close>

fun default_values :: "coltype option \<Rightarrow> val" where
  "default_values (Some ColList) = VList []"
| "default_values (Some ColSet) = VSet {||}"
| "default_values (Some ColMap) = VMap fmempty"
| "default_values _ = PyNone"

definition default_value :: "table \<Rightarrow> string \<Rightarrow> val" where
  "default_value t column_name =
     default_values (map_option col_type (map_of (columns t) (db_map_get (db_map t) column_name)))"

text \<open>The dict comprehension at the head of \<^verbatim>\<open>Table.insert\<close>. Each value of
  \<open>values\<close> and each default (a new \<^verbatim>\<open>[]\<close>, \<^verbatim>\<open>set()\<close> or \<^verbatim>\<open>{}\<close> per call) is an
  object that only the new row refers to.\<close>

definition new_entry :: "table \<Rightarrow> pydict \<Rightarrow> row" where
  "new_entry t values =
     (\<lambda>column_name.
        if column_name \<in> column_names t
        then Some (Own (case map_of values column_name of
                          Some v \<Rightarrow> v
                        | None \<Rightarrow> default_value t column_name))
        else None)"

text \<open>
  \<^verbatim>\<open>Table.insert\<close>. The result is the raised exception, if any, and the table after
  the call.
\<close>

definition pk_missing :: "table \<Rightarrow> row \<Rightarrow> bool" where
  "pk_missing t entry =
     (\<exists>pk_field\<in>primary_key_names t.
        row_values t entry pk_field = None \<or> row_values t entry pk_field = Some PyNone)"

definition Table_insert :: "table \<Rightarrow> pydict \<Rightarrow> bool \<Rightarrow> error option \<times> table" where
  "Table_insert t values if_not_exists =
     (let entry = new_entry t values in
      if pk_missing t entry then (Some CQLEngineException, t)
      else
        (case find_by_pk t (row_values t entry |` primary_key_names t) of
           Inl e \<Rightarrow> (Some e, t)
         | Inr (Some entry_idx) \<Rightarrow>
             if if_not_exists then (Some LWTException, t)
             else (None, t\<lparr>entries := (entries t)[entry_idx := entry]\<rparr>)
         | Inr None \<Rightarrow> (None, t\<lparr>entries := entries t @ [entry]\<rparr>)))"

subsection \<open>Selecting rows by equality filters\<close>

text \<open>
  The match test of \<^verbatim>\<open>Table._get_indices_by_kwargs\<close>: every filter key is present in
  the row with an equal value (the inner loop breaks at the first failure).
\<close>

definition row_matches :: "pydict \<Rightarrow> vrow \<Rightarrow> bool" where
  "row_matches kwargs entry =
     list_all (\<lambda>(kwarg_name, kwarg_value).
                 case entry kwarg_name of None \<Rightarrow> False | Some x \<Rightarrow> x = kwarg_value) kwargs"

text \<open>
  The scan of \<^verbatim>\<open>_get_indices_by_kwargs\<close>. The limit is tested after each row, by
  \<^verbatim>\<open>limit is not None and len(indices) == limit\<close>; \<open>limit\<close> is any Python value.
\<close>

fun get_indices_loop :: "val \<Rightarrow> pydict \<Rightarrow> vrow list \<Rightarrow> nat \<Rightarrow> nat list \<Rightarrow> nat list" where
  "get_indices_loop limit kwargs [] idx indices = indices"
| "get_indices_loop limit kwargs (entry # es) idx indices =
     (let indices' = (if row_matches kwargs entry then indices @ [idx] else indices) in
      if limit \<noteq> PyNone \<and> limit = VInt (int (length indices')) then indices'
      else get_indices_loop limit kwargs es (Suc idx) indices')"

definition get_indices_by_kwargs :: "table \<Rightarrow> val \<Rightarrow> pydict \<Rightarrow> nat list" where
  "get_indices_by_kwargs t limit kwargs =
     (if kwargs = [] then [0..<length (entries t)]
      else get_indices_loop limit kwargs (entry_values t) 0 [])"

text \<open>
  The two call shapes. \<^verbatim>\<open>self._get_indices_by_kwargs(**filters)\<close> (update, delete)
  binds a filter key \<^verbatim>\<open>limit\<close> to the parameter of that name and refuses a key
  \<^verbatim>\<open>self\<close>; \<^verbatim>\<open>self._get_indices_by_kwargs(limit, **filters)\<close> (find) refuses both,
  with Python's \<^verbatim>\<open>TypeError\<close> for a parameter given twice.
\<close>

definition get_indices_kw :: "table \<Rightarrow> pydict \<Rightarrow> error + nat list" where
  "get_indices_kw t filters =
     (if map_of filters ''self'' \<noteq> None then Inl TypeError
      else Inr (get_indices_by_kwargs t
                  (case map_of filters ''limit'' of Some v \<Rightarrow> v | None \<Rightarrow> PyNone)
                  (filter (\<lambda>(k, v). k \<noteq> ''limit'') filters)))"

definition get_indices_pos :: "table \<Rightarrow> val \<Rightarrow> pydict \<Rightarrow> error + nat list" where
  "get_indices_pos t limit filters =
     (if map_of filters ''self'' \<noteq> None \<or> map_of filters ''limit'' \<noteq> None then Inl TypeError
      else Inr (get_indices_by_kwargs t limit filters))"

subsection \<open>find\<close>

text \<open>\<^verbatim>\<open>Table._get_item_by_idx\<close>: the projection dict, built field by field; a field the
  row lacks raises \<^verbatim>\<open>KeyError\<close>. \<^verbatim>\<open>Table.find\<close> returns a deep copy of it: the
  values the cells denote.\<close>

fun get_item :: "(string \<rightharpoonup> string) \<Rightarrow> vrow \<Rightarrow> string list \<Rightarrow> vrow \<Rightarrow> error + vrow" where
  "get_item dm entry [] acc = Inr acc"
| "get_item dm entry (field_name # select) acc =
     (case entry field_name of
        None \<Rightarrow> Inl KeyError
      | Some v \<Rightarrow> get_item dm entry select (acc(db_map_get dm field_name \<mapsto> v)))"

definition get_item_by_idx :: "table \<Rightarrow> nat \<Rightarrow> string list \<Rightarrow> error + vrow" where
  "get_item_by_idx t idx select =
     (if idx < length (entries t)
      then get_item (db_map t) (row_values t (entries t ! idx)) select Map.empty
      else Inl IndexError)"

fun find_items :: "table \<Rightarrow> string list \<Rightarrow> nat list \<Rightarrow> error + vrow list" where
  "find_items t select [] = Inr []"
| "find_items t select (idx # indices) =
     (case get_item_by_idx t idx select of
        Inl e \<Rightarrow> Inl e
      | Inr item \<Rightarrow>
          (case find_items t select indices of
             Inl e \<Rightarrow> Inl e
           | Inr items \<Rightarrow> Inr (item # items)))"

definition Table_find :: "table \<Rightarrow> pydict \<Rightarrow> val \<Rightarrow> string list \<Rightarrow> error + vrow list" where
  "Table_find t filters limit select =
     (case get_indices_pos t limit filters of
        Inl e \<Rightarrow> Inl e
      | Inr indices \<Rightarrow> find_items t select indices)"

subsection \<open>Update operators\<close>

text \<open>
  Python's operators on the value universe, one function per expression of
  \<^verbatim>\<open>Table._assign_value\<close>. Each gives the new cell value or the exception.
\<close>

definition chars_of :: "string \<Rightarrow> scalar list" where
  "chars_of s = map (\<lambda>c. SStr [c]) s"

text \<open>\<^verbatim>\<open>cur += v\<close>\<close>

fun py_iadd :: "val \<Rightarrow> val \<Rightarrow> error + val" where
  "py_iadd (VList xs) (VList ys) = Inr (VList (xs @ ys))"
| "py_iadd (VList xs) (Scalar (SStr s)) = Inr (VList (xs @ chars_of s))"
| "py_iadd (VList xs) (VSet s) = Inl Unmodelled"
| "py_iadd (VList xs) (VMap m) = Inl Unmodelled"
| "py_iadd (VList xs) (Scalar _) = Inl TypeError"
| "py_iadd (Scalar (SInt a)) (Scalar (SInt b)) = Inr (VInt (a + b))"
| "py_iadd (Scalar (SStr a)) (Scalar (SStr b)) = Inr (VStr (a @ b))"
| "py_iadd _ _ = Inl TypeError"

text \<open>\<^verbatim>\<open>v + cur\<close>\<close>

fun py_add :: "val \<Rightarrow> val \<Rightarrow> error + val" where
  "py_add (VList xs) (VList ys) = Inr (VList (xs @ ys))"
| "py_add (Scalar (SInt a)) (Scalar (SInt b)) = Inr (VInt (a + b))"
| "py_add (Scalar (SStr a)) (Scalar (SStr b)) = Inr (VStr (a @ b))"
| "py_add _ _ = Inl TypeError"

text \<open>\<^verbatim>\<open>cur.update(v)\<close>\<close>

fun py_update :: "val \<Rightarrow> val \<Rightarrow> error + val" where
  "py_update (VSet s) (VSet s') = Inr (VSet (s |\<union>| s'))"
| "py_update (VSet s) (VList ys) = Inr (VSet (s |\<union>| fset_of_list ys))"
| "py_update (VSet s) (Scalar (SStr str)) = Inr (VSet (s |\<union>| fset_of_list (chars_of str)))"
| "py_update (VSet s) (VMap m) = Inr (VSet (s |\<union>| fmdom m))"
| "py_update (VSet s) (Scalar _) = Inl TypeError"
| "py_update (VMap m) (VMap m') = Inr (VMap (m ++\<^sub>f m'))"
| "py_update (VMap m) _ = Inl Unmodelled"
| "py_update _ _ = Inl AttributeError"

text \<open>\<^verbatim>\<open>cur -= v\<close>\<close>

fun py_isub :: "val \<Rightarrow> val \<Rightarrow> error + val" where
  "py_isub (VSet s) (VSet s') = Inr (VSet (s |-| s'))"
| "py_isub (Scalar (SInt a)) (Scalar (SInt b)) = Inr (VInt (a - b))"
| "py_isub _ _ = Inl TypeError"

text \<open>\<^verbatim>\<open>cur.update(**v)\<close>: the attribute is looked up first, then \<^verbatim>\<open>**v\<close> needs a
  mapping with text keys.\<close>

definition str_keys :: "(scalar, scalar) fmap \<Rightarrow> bool" where
  "str_keys m = (\<not> (\<exists>k. k |\<in>| fmdom m \<and> (case k of SStr _ \<Rightarrow> False | _ \<Rightarrow> True)))"

fun py_update_kw :: "val \<Rightarrow> val \<Rightarrow> error + val" where
  "py_update_kw (VMap m) (VMap m') = (if str_keys m' then Inr (VMap (m ++\<^sub>f m')) else Inl TypeError)"
| "py_update_kw (VSet s) (VMap m') =
     (if str_keys m' \<and> m' = fmempty then Inr (VSet s) else Inl TypeError)"
| "py_update_kw (VMap m) _ = Inl TypeError"
| "py_update_kw (VSet s) _ = Inl TypeError"
| "py_update_kw _ _ = Inl AttributeError"

text \<open>\<^verbatim>\<open>{key: val for key, val in cur.items() if key not in v}\<close>\<close>

fun py_remove_keys :: "val \<Rightarrow> val \<Rightarrow> error + val" where
  "py_remove_keys (VMap m) (VSet s) = Inr (VMap (fmfilter (\<lambda>k. k |\<notin>| s) m))"
| "py_remove_keys (VMap m) (VList ys) = Inr (VMap (fmfilter (\<lambda>k. k \<notin> set ys) m))"
| "py_remove_keys (VMap m) (VMap m') = Inr (VMap (fmfilter (\<lambda>k. k |\<notin>| fmdom m') m))"
| "py_remove_keys (VMap m) (Scalar (SStr str)) =
     (if m = fmempty then Inr (VMap fmempty) else Inl Unmodelled)"
| "py_remove_keys (VMap m) (Scalar _) =
     (if m = fmempty then Inr (VMap fmempty) else Inl TypeError)"
| "py_remove_keys _ _ = Inl AttributeError"

subsection \<open>update and delete\<close>

text \<open>
  \<^verbatim>\<open>self._entries[item_idx][column] = obj\<close>: the cell is bound to an object.
\<close>

definition set_cell :: "table \<Rightarrow> nat \<Rightarrow> string \<Rightarrow> cellv \<Rightarrow> table" where
  "set_cell t item_idx column cv =
     t\<lparr>entries := (entries t)[item_idx := (entries t ! item_idx)(column \<mapsto> cv)]\<rparr>"

text \<open>
  The effect of an operation that changes the object of a cell in place
  (\<^verbatim>\<open>+=\<close> on a list, \<^verbatim>\<open>-=\<close> on a set, \<^verbatim>\<open>.update\<close>): a list, set or dict is mutable,
  so every cell that refers to the same object reads the new value \<open>v'\<close>; an immutable
  object is replaced by a new one in this cell alone.
\<close>

fun is_container :: "val \<Rightarrow> bool" where
  "is_container (Scalar _) = False"
| "is_container _ = True"

definition mutate_cell :: "table \<Rightarrow> nat \<Rightarrow> string \<Rightarrow> cellv \<Rightarrow> val \<Rightarrow> table" where
  "mutate_cell t item_idx column cv v' =
     (case cv of
        Shared a \<Rightarrow>
          if is_container (objects t a) then t\<lparr>objects := (objects t)(a := v')\<rparr>
          else set_cell t item_idx column (Own v')
      | Own _ \<Rightarrow> set_cell t item_idx column (Own v'))"

text \<open>
  Reading the cell \<^verbatim>\<open>self._entries[item_idx][column]\<close>, computing with its value, and
  either changing its object in place or binding the cell to the new object that the
  expression built.
\<close>

definition apply_cell ::
  "table \<Rightarrow> nat \<Rightarrow> string \<Rightarrow> bool \<Rightarrow> (val \<Rightarrow> error + val) \<Rightarrow> error option \<times> table" where
  "apply_cell t item_idx column in_place f =
     (if length (entries t) \<le> item_idx then (Some IndexError, t)
      else
        (case (entries t ! item_idx) column of
           None \<Rightarrow> (Some KeyError, t)
         | Some cv \<Rightarrow>
             (case f (deref (objects t) cv) of
                Inl e \<Rightarrow> (Some e, t)
              | Inr v' \<Rightarrow>
                  (None, if in_place then mutate_cell t item_idx column cv v'
                         else set_cell t item_idx column (Own v')))))"

text \<open>
  \<^verbatim>\<open>Table._assign_value\<close>. The operand \<open>operand\<close> is the object the caller passed:
  \<^verbatim>\<open>assign\<close> stores that very object in the cell, the other operators read its value.
  Append, add, set remove and map update change the cell's object in place; prepend
  and map remove build a new object. Past the first branch every test evaluates
  \<^verbatim>\<open>self._columns[column]\<close>, which raises \<^verbatim>\<open>KeyError\<close> for a name that is no key of
  the column dict. An operator that fits no branch changes nothing.
\<close>

definition assign_value :: "table \<Rightarrow> nat \<Rightarrow> string \<Rightarrow> string \<Rightarrow> cellv \<Rightarrow> error option \<times> table" where
  "assign_value t item_idx column operator operand =
     (let v = deref (objects t) operand in
      if operator = ''assign'' then
        (if length (entries t) \<le> item_idx then (Some IndexError, t)
         else (None, set_cell t item_idx column operand))
      else
        (case map_of (columns t) column of
           None \<Rightarrow> (Some KeyError, t)
         | Some c \<Rightarrow>
             if col_type c = ColList \<and> operator = ''append'' then
               apply_cell t item_idx column True (\<lambda>cur. py_iadd cur v)
             else if col_type c = ColList \<and> operator = ''prepend'' then
               apply_cell t item_idx column False (\<lambda>cur. py_add v cur)
             else if col_type c = ColSet \<and> operator = ''add'' then
               apply_cell t item_idx column True (\<lambda>cur. py_update cur v)
             else if col_type c = ColSet \<and> operator = ''remove'' then
               apply_cell t item_idx column True (\<lambda>cur. py_isub cur v)
             else if col_type c = ColMap \<and> operator = ''update'' then
               apply_cell t item_idx column True (\<lambda>cur. py_update_kw cur v)
             else if col_type c = ColMap \<and> operator = ''remove'' then
               apply_cell t item_idx column False (\<lambda>cur. py_remove_keys cur v)
             else (None, t)))"

text \<open>
  The two loops of \<^verbatim>\<open>Table.update\<close>. An exception leaves the rows as the assignments
  before it made them: nothing is rolled back.
\<close>

fun assign_all :: "table \<Rightarrow> nat \<Rightarrow> (string \<times> string \<times> cellv) list \<Rightarrow> error option \<times> table" where
  "assign_all t idx [] = (None, t)"
| "assign_all t idx ((attribute_to_update, operator, operand) # rest) =
     (if attribute_to_update \<in> column_names t then
        (case assign_value t idx attribute_to_update operator operand of
           (Some e, t') \<Rightarrow> (Some e, t')
         | (None, t') \<Rightarrow> assign_all t' idx rest)
      else assign_all t idx rest)"

fun update_rows :: "table \<Rightarrow> nat list \<Rightarrow> (string \<times> string \<times> cellv) list \<Rightarrow> error option \<times> table" where
  "update_rows t [] values = (None, t)"
| "update_rows t (idx # indices) values =
     (case assign_all t idx values of
        (Some e, t') \<Rightarrow> (Some e, t')
      | (None, t') \<Rightarrow> update_rows t' indices values)"

text \<open>
  The operands of one \<^verbatim>\<open>Table.update\<close> call as objects: each list, set or dict among
  the values is one object, at a new address of the operand store, for all the rows of
  the call; an immutable value needs no address.
\<close>

fun bind_operands ::
  "table \<Rightarrow> (string \<times> string \<times> val) list \<Rightarrow> table \<times> (string \<times> string \<times> cellv) list" where
  "bind_operands t [] = (t, [])"
| "bind_operands t ((attribute_to_update, operator, v) # rest) =
     (if is_container v then
        (case bind_operands (t\<lparr>objects := (objects t)(next_ref t := v), next_ref := Suc (next_ref t)\<rparr>) rest of
           (t', rest') \<Rightarrow> (t', (attribute_to_update, operator, Shared (next_ref t)) # rest'))
      else
        (case bind_operands t rest of
           (t', rest') \<Rightarrow> (t', (attribute_to_update, operator, Own v) # rest')))"

definition Table_update ::
  "table \<Rightarrow> pydict \<Rightarrow> (string \<times> string \<times> val) list \<Rightarrow> bool \<Rightarrow> error option \<times> table" where
  "Table_update t filters values if_exists =
     (case get_indices_kw t filters of
        Inl e \<Rightarrow> (Some e, t)
      | Inr indices \<Rightarrow>
          if indices = [] \<and> if_exists then (Some LWTException, t)
          else
            (case bind_operands t values of
               (t', operands) \<Rightarrow> update_rows t' indices operands))"

text \<open>\<^verbatim>\<open>del self._entries[index]\<close>, for the indices in descending order.\<close>

definition del_at :: "nat \<Rightarrow> 'a list \<Rightarrow> 'a list" where
  "del_at i xs = take i xs @ drop (Suc i) xs"

definition Table_delete :: "table \<Rightarrow> pydict \<Rightarrow> bool \<Rightarrow> error option \<times> table" where
  "Table_delete t filters if_exists =
     (if filters = [] then (None, t\<lparr>entries := []\<rparr>)
      else
        (case get_indices_kw t filters of
           Inl e \<Rightarrow> (Some e, t)
         | Inr indices \<Rightarrow>
             if indices = [] \<and> if_exists then (Some LWTException, t)
             else (None, t\<lparr>entries := foldl (\<lambda>es index. del_at index es) (entries t)
                                         (rev (sort indices))\<rparr>)))"

section \<open>Keyspace\<close>

record keyspace =
  ks_name :: string
  tables :: "string \<rightharpoonup> table"

definition Keyspace_init :: "string \<Rightarrow> keyspace" where
  "Keyspace_init n = \<lparr> ks_name = n, tables = Map.empty \<rparr>"

definition add_table :: "keyspace \<Rightarrow> string \<Rightarrow> (string \<times> column) list \<Rightarrow> (string \<rightharpoonup> string) \<Rightarrow> keyspace" where
  "add_table ks n flds dm = ks\<lparr>tables := (tables ks)(n \<mapsto> Table_init n flds dm)\<rparr>"

definition get_table :: "keyspace \<Rightarrow> string \<Rightarrow> error + table" where
  "get_table ks table_name = (case tables ks table_name of None \<Rightarrow> Inl KeyError | Some t \<Rightarrow> Inr t)"

section \<open>Module state and the statement executor\<close>

text \<open>
  The module-level globals: the registry \<^verbatim>\<open>_keyspaces\<close> and the row store
  \<^verbatim>\<open>_entries = defaultdict(list)\<close>, which \<^verbatim>\<open>flush\<close>, \<^verbatim>\<open>lookup_items\<close> and the
  field-delete branch of \<^verbatim>\<open>DMLQuery._execute\<close> use. The module reads \<^verbatim>\<open>_entries\<close>
  with \<^verbatim>\<open>.get\<close> only, so a missing key stays missing. Its rows are dicts of values.
\<close>

record state =
  keyspaces :: "string \<rightharpoonup> keyspace"
  module_entries :: "string \<rightharpoonup> vrow list"

definition init_state :: state where
  "init_state = \<lparr> keyspaces = Map.empty, module_entries = Map.empty \<rparr>"

definition create_keyspace :: "string \<Rightarrow> state \<Rightarrow> state" where
  "create_keyspace n s = s\<lparr>keyspaces := (keyspaces s)(n \<mapsto> Keyspace_init n)\<rparr>"

definition get_keyspace :: "state \<Rightarrow> string \<Rightarrow> error + keyspace" where
  "get_keyspace s ks = (case keyspaces s ks of None \<Rightarrow> Inl KeyError | Some k \<Rightarrow> Inr k)"

text \<open>\<^verbatim>\<open>flush()\<close>: rebinds the module-level \<^verbatim>\<open>_entries\<close> to a new empty defaultdict.\<close>

definition flush :: "state \<Rightarrow> state" where
  "flush s = s\<lparr>module_entries := Map.empty\<rparr>"

text \<open>
  A cqlengine statement, as far as \<^verbatim>\<open>DMLQuery._execute\<close> reads it. A clause is its
  \<^verbatim>\<open>field\<close> and \<^verbatim>\<open>value\<close>; an assignment clause also carries its \<^verbatim>\<open>_operation\<close>
  attribute (\<open>None\<close> when the clause has none).
\<close>

datatype stmt_class = InsertStatement | DeleteStatement | UpdateStatement | OtherStatement

record statement =
  stmt_class :: stmt_class
  stmt_table :: string
  where_clauses :: "(string \<times> val) list"
  assignments :: "(string \<times> string option \<times> val) list"
  stmt_fields :: "(string \<times> val) list"
  if_not_exists :: bool

definition clauses_to_dict :: "(string \<times> val) list \<Rightarrow> pydict" where
  "clauses_to_dict clauses = foldl (\<lambda>payload (f, v). AList.update f v payload) [] clauses"

definition SUPPORTED_OPERATIONS :: "string set" where
  "SUPPORTED_OPERATIONS = {''append'', ''prepend'', ''update'', ''remove'', ''add'', ''assign''}"

definition assigment_to_operator :: "string option \<Rightarrow> string" where
  "assigment_to_operator operation =
     (case operation of
        None \<Rightarrow> ''assign''
      | Some operation' \<Rightarrow>
          if operation' \<noteq> [] \<and> operation' \<in> SUPPORTED_OPERATIONS then operation' else ''assign'')"

definition assignments_to_list ::
  "(string \<times> string option \<times> val) list \<Rightarrow> (string \<times> string \<times> val) list" where
  "assignments_to_list asgs = map (\<lambda>(f, operation, v). (f, assigment_to_operator operation, v)) asgs"

definition attributes_matched :: "vrow \<Rightarrow> pydict \<Rightarrow> bool" where
  "attributes_matched source_dict lookup_dict =
     (lookup_dict \<noteq> [] \<and>
      list_all (\<lambda>(lookup_key, lookup_value). source_dict lookup_key = Some lookup_value) lookup_dict)"

text \<open>\<^verbatim>\<open>lookup_items\<close>: scans \<^verbatim>\<open>_entries.get(tbl_name, [])\<close>, the module-level store.\<close>

definition lookup_items :: "state \<Rightarrow> string \<Rightarrow> (string \<times> val) list \<Rightarrow> nat list" where
  "lookup_items s tbl_name asgs =
     (let items = (case module_entries s tbl_name of None \<Rightarrow> [] | Some rows \<Rightarrow> rows) in
      filter (\<lambda>idx. attributes_matched (items ! idx) (clauses_to_dict asgs) \<or> asgs = [])
        [0..<length items])"

text \<open>\<^verbatim>\<open>str.split('.')\<close> and \<^verbatim>\<open>_get_ks_table_name\<close>; unpacking anything but two parts
  raises \<^verbatim>\<open>ValueError\<close>.\<close>

fun split_on :: "char \<Rightarrow> string \<Rightarrow> string list" where
  "split_on c [] = [[]]"
| "split_on c (x # xs) =
     (if x = c then [] # split_on c xs
      else (case split_on c xs of
              [] \<Rightarrow> [[x]]
            | w # ws \<Rightarrow> (x # w) # ws))"

definition get_ks_table_name :: "string \<Rightarrow> string \<Rightarrow> error + string \<times> string" where
  "get_ks_table_name model_keyspace tbl =
     (if CHR ''.'' \<in> set tbl then
        (case split_on CHR ''.'' tbl of
           [ks, tn] \<Rightarrow> Inr (ks, tn)
         | _ \<Rightarrow> Inl ValueError)
      else Inr (model_keyspace, tbl))"

text \<open>The field-delete loops of \<^verbatim>\<open>DMLQuery._execute\<close>, writing into the module-level
  store.\<close>

definition null_field :: "state \<Rightarrow> string \<Rightarrow> nat \<Rightarrow> string \<times> val \<Rightarrow> state" where
  "null_field s tbl idx fv =
     (case module_entries s tbl of
        None \<Rightarrow> s
      | Some rows \<Rightarrow>
          if idx < length rows
          then s\<lparr>module_entries := (module_entries s)(tbl \<mapsto> rows[idx := (rows ! idx)(fst fv \<mapsto> snd fv)])\<rparr>
          else s)"

definition null_fields :: "state \<Rightarrow> string \<Rightarrow> nat list \<Rightarrow> (string \<times> val) list \<Rightarrow> state" where
  "null_fields s tbl indices flds =
     foldl (\<lambda>s' idx. foldl (\<lambda>s'' fv. null_field s'' tbl idx fv) s' flds) s indices"

definition put_table :: "state \<Rightarrow> string \<Rightarrow> string \<Rightarrow> table \<Rightarrow> state" where
  "put_table s ks tn t =
     (case keyspaces s ks of
        None \<Rightarrow> s
      | Some k \<Rightarrow> s\<lparr>keyspaces := (keyspaces s)(ks \<mapsto> k\<lparr>tables := (tables k)(tn \<mapsto> t)\<rparr>)\<rparr>)"

text \<open>
  \<^verbatim>\<open>DMLQuery._execute\<close>. The query object is the keyspace of its model and its batch
  (\<open>None\<close>, or the statements queued so far: \<^verbatim>\<open>add_query\<close> appends). A table is a
  shared Python object; the model writes the table after the call back under its name.
\<close>

record dml_query =
  model_keyspace :: string
  batch :: "statement list option"

definition DMLQuery_execute ::
  "state \<Rightarrow> dml_query \<Rightarrow> statement \<Rightarrow> error option \<times> state \<times> dml_query" where
  "DMLQuery_execute s q stmt =
     (case get_ks_table_name (model_keyspace q) (stmt_table stmt) of
        Inl e \<Rightarrow> (Some e, s, q)
      | Inr (ks, tn) \<Rightarrow>
     (case get_keyspace s ks of
        Inl e \<Rightarrow> (Some e, s, q)
      | Inr k \<Rightarrow>
     (case get_table k tn of
        Inl e \<Rightarrow> (Some e, s, q)
      | Inr t \<Rightarrow>
     (case batch q of
        Some queued \<Rightarrow> (None, s, q\<lparr>batch := Some (queued @ [stmt])\<rparr>)
      | None \<Rightarrow>
          (case stmt_class stmt of
             InsertStatement \<Rightarrow>
               (case Table_insert t (clauses_to_dict (map (\<lambda>(f, operation, v). (f, v)) (assignments stmt)))
                       (if_not_exists stmt) of
                  (err, t') \<Rightarrow> (err, put_table s ks tn t', q))
           | DeleteStatement \<Rightarrow>
               (let indices = lookup_items s (stmt_table stmt) (where_clauses stmt) in
                if stmt_fields stmt \<noteq> []
                then (None, null_fields s (stmt_table stmt) indices (stmt_fields stmt), q)
                else
                  (case Table_delete t (clauses_to_dict (where_clauses stmt)) False of
                     (err, t') \<Rightarrow> (err, put_table s ks tn t', q)))
           | UpdateStatement \<Rightarrow>
               (case Table_update t (clauses_to_dict (where_clauses stmt))
                       (assignments_to_list (assignments stmt)) False of
                  (err, t') \<Rightarrow> (err, put_table s ks tn t', q))
           | OtherStatement \<Rightarrow> (None, s, q))))))"

text \<open>
  The storage effect of \<^verbatim>\<open>_sync_table\<close> (\<^verbatim>\<open>base/management.py\<close>): the keyspace is
  looked up (a missing one is reported as \<^verbatim>\<open>CQLEngineException\<close>); the test
  \<^verbatim>\<open>raw_cf_name not in tables\<close> is on the model's raw column-family name, and the table
  is added under \<^verbatim>\<open>model.column_family_name(False)\<close>, which cqlengine quotes where the
  raw name needs it. The two names are parameters.
\<close>

definition sync_table ::
  "state \<Rightarrow> string \<Rightarrow> string \<Rightarrow> string \<Rightarrow> (string \<times> column) list \<Rightarrow> (string \<rightharpoonup> string)
    \<Rightarrow> error option \<times> state" where
  "sync_table s ks raw_cf_name cf_name cols dm =
     (case get_keyspace s ks of
        Inl e \<Rightarrow> (Some CQLEngineException, s)
      | Inr k \<Rightarrow>
          if tables k raw_cf_name \<noteq> None then (None, s)
          else (None, s\<lparr>keyspaces := (keyspaces s)(ks \<mapsto> add_table k cf_name cols dm)\<rparr>))"

text \<open>\<^verbatim>\<open>get_keyspace(ks).get_table(tn).find(filters, limit, select)\<close>, the lookup chain of
  the executor followed by the read.\<close>

definition find_in :: "state \<Rightarrow> string \<Rightarrow> string \<Rightarrow> pydict \<Rightarrow> val \<Rightarrow> string list \<Rightarrow> error + vrow list" where
  "find_in s ks tn filters limit select =
     (case get_keyspace s ks of
        Inl e \<Rightarrow> Inl e
      | Inr k \<Rightarrow>
          (case get_table k tn of
             Inl e \<Rightarrow> Inl e
           | Inr t \<Rightarrow> Table_find t filters limit select))"

section \<open>Vocabulary of the properties\<close>

text \<open>The primary-key tuple of a row: the values of the row under the primary-key
  names.\<close>

definition pk_tuple :: "table \<Rightarrow> row \<Rightarrow> vrow" where
  "pk_tuple t e = row_values t e |` primary_key_names t"

text \<open>A sequence of \<^verbatim>\<open>Table.insert\<close> calls; a call that raises leaves the table it
  found and the sequence goes on.\<close>

definition insert_calls :: "table \<Rightarrow> (pydict \<times> bool) list \<Rightarrow> table" where
  "insert_calls t calls =
     foldl (\<lambda>t' (values, if_not_exists). snd (Table_insert t' values if_not_exists)) t calls"




subsection \<open>Example schemas and states\<close>

definition user_columns :: "(string \<times> column) list" where
  "user_columns =
     [(''id'', \<lparr>db_field_name = ''id'', primary_key = True, col_type = ColOther\<rparr>),
      (''name'', \<lparr>db_field_name = ''name'', primary_key = False, col_type = ColOther\<rparr>),
      (''tags'', \<lparr>db_field_name = ''tags'', primary_key = False, col_type = ColList\<rparr>),
      (''groups'', \<lparr>db_field_name = ''groups'', primary_key = False, col_type = ColSet\<rparr>)]"

definition users :: table where
  "users = Table_init ''users'' user_columns Map.empty"

text \<open>A table whose schema declares no primary-key column.\<close>

definition log_columns :: "(string \<times> column) list" where
  "log_columns = [(''note'', \<lparr>db_field_name = ''note'', primary_key = False, col_type = ColOther\<rparr>)]"

definition log_table :: table where
  "log_table = Table_init ''log'' log_columns Map.empty"

text \<open>The table \<open>users\<close> after two inserts, of the keys 1 and 2.\<close>

definition users2 :: table where
  "users2 = insert_calls users
     [([(''id'', VInt 1), (''name'', VStr ''a'')], False), ([(''id'', VInt 2)], False)]"

text \<open>A table whose list column \<open>skills\<close> is stored under the name \<open>user_skills\<close>
  (cqlengine's \<^verbatim>\<open>db_field\<close>), holding one row.\<close>

definition alias_columns :: "(string \<times> column) list" where
  "alias_columns =
     [(''id'', \<lparr>db_field_name = ''id'', primary_key = True, col_type = ColOther\<rparr>),
      (''skills'', \<lparr>db_field_name = ''user_skills'', primary_key = False, col_type = ColList\<rparr>)]"

definition alias_table :: table where
  "alias_table =
     snd (Table_insert (Table_init ''profiles'' alias_columns [''user_skills'' \<mapsto> ''skills''])
            [(''id'', VInt 1), (''user_skills'', VList [SStr ''x''])] False)"

definition fake_query :: dml_query where
  "fake_query = \<lparr> model_keyspace = ''fake'', batch = None \<rparr>"

definition insert_user :: statement where
  "insert_user =
     \<lparr> stmt_class = InsertStatement, stmt_table = ''users'', where_clauses = [],
       assignments = [(''id'', None, VInt 1), (''name'', None, VStr ''a'')],
       stmt_fields = [], if_not_exists = False \<rparr>"

definition delete_name :: statement where
  "delete_name =
     \<lparr> stmt_class = DeleteStatement, stmt_table = ''users'', where_clauses = [(''id'', VInt 1)],
       assignments = [], stmt_fields = [(''name'', PyNone)], if_not_exists = False \<rparr>"

text \<open>The module state after creating the keyspace \<open>fake\<close>, syncing the table
  \<open>users\<close> and executing one insert statement.\<close>

definition demo_state :: state where
  "demo_state =
     fst (snd (DMLQuery_execute
       (snd (sync_table (create_keyspace ''fake'' init_state) ''fake'' ''users'' ''users''
               user_columns Map.empty))
       fake_query insert_user))"

section \<open>Properties\<close>

subsection \<open>Looking a primary key up\<close>

lemma restrict_eq_iff: "(e |` A = e' |` A) = (\<forall>k\<in>A. e k = e' k)"
  by (auto simp: restrict_map_def fun_eq_iff split: if_splits)



lemma find_by_pk_loop_Some:
  "find_by_pk_loop pks p es idx = Inr (Some j) \<Longrightarrow>
     idx \<le> j \<and> j - idx < length es \<and> (\<forall>pk\<in>pks. (es ! (j - idx)) pk = p pk)"
proof (induction es arbitrary: idx)
  case Nil
  then show ?case by simp
next
  case (Cons e es)
  show ?case
  proof (cases "\<forall>pk\<in>pks. e pk = p pk")
    case True
    with Cons.prems show ?thesis by (auto split: if_splits)
  next
    case False
    with Cons.prems have "find_by_pk_loop pks p es (Suc idx) = Inr (Some j)"
      by (auto split: if_splits)
    from Cons.IH[OF this] have le: "Suc idx \<le> j" and len: "j - Suc idx < length es"
      and eq: "\<forall>pk\<in>pks. (es ! (j - Suc idx)) pk = p pk" by auto
    from le have "j - idx = Suc (j - Suc idx)" by arith
    with le len eq show ?thesis by simp
  qed
qed

lemma find_by_pk_loop_None:
  "find_by_pk_loop pks p es idx = Inr None \<Longrightarrow> \<forall>e\<in>set es. \<exists>pk\<in>pks. e pk \<noteq> p pk"
  by (induction es arbitrary: idx) (auto split: if_splits)




subsection \<open>What an insert does to a table\<close>





text \<open>A successful insert either replaced the row the lookup found or appended.\<close>

lemma insert_success_cases:
  assumes "Table_insert t v False = (None, t')"
  shows "\<not> pk_missing t (new_entry t v)
         \<and> ((\<exists>j<length (entries t). t' = t\<lparr>entries := (entries t)[j := new_entry t v]\<rparr>
               \<and> find_by_pk t (pk_tuple t (new_entry t v)) = Inr (Some j))
            \<or> (t' = t\<lparr>entries := entries t @ [new_entry t v]\<rparr>
               \<and> find_by_pk t (pk_tuple t (new_entry t v)) = Inr None))"
proof (cases "find_by_pk t (pk_tuple t (new_entry t v))")
  case (Inl e)
  with assms show ?thesis
    by (auto simp: Table_insert_def Let_def pk_tuple_def split: if_splits)
next
  case (Inr r)
  show ?thesis
  proof (cases r)
    case None
    with Inr assms show ?thesis
      by (auto simp: Table_insert_def Let_def pk_tuple_def split: if_splits)
  next
    case (Some j)
    with Inr have "j < length (entries t)"
      using find_by_pk_loop_Some[of "primary_key_names t" _ "entry_values t" 0 j]
      by (simp add: find_by_pk_def entry_values_def)
    with Inr Some assms show ?thesis
      by (auto simp: Table_insert_def Let_def pk_tuple_def split: if_splits)
  qed
qed




subsection \<open>Evaluating the examples\<close>

lemmas example_defs = Table_insert_def Table_init_def new_entry_def pk_missing_def find_by_pk_def
  Let_def default_value_def db_map_get_def user_columns_def users_def log_columns_def
  log_table_def insert_calls_def users2_def row_values_def entry_values_def

lemmas executor_defs = demo_state_def sync_table_def create_keyspace_def init_state_def
  get_keyspace_def get_table_def add_table_def Keyspace_init_def DMLQuery_execute_def
  get_ks_table_name_def fake_query_def insert_user_def delete_name_def clauses_to_dict_def
  put_table_def find_in_def Table_find_def get_indices_pos_def get_indices_by_kwargs_def
  get_item_by_idx_def flush_def lookup_items_def null_fields_def row_matches_def

lemma users2_ids: "map (\<lambda>r. r ''id'') (entry_values users2) = [Some (VInt 1), Some (VInt 2)]"
  by (simp add: example_defs)

subsection \<open>Primary-key uniqueness\<close>



text \<open>The lookup of an existing key replaces in place: the number of rows stays.\<close>

lemma insert_existing_key_replaces:
  assumes "Table_insert t v False = (None, t')"
    and "\<exists>e\<in>set (entries t). pk_tuple t e = pk_tuple t (new_entry t v)"
  shows "length (entries t') = length (entries t)"
proof -
  from insert_success_cases[OF assms(1)]
  have "(\<exists>j<length (entries t). t' = t\<lparr>entries := (entries t)[j := new_entry t v]\<rparr>
               \<and> find_by_pk t (pk_tuple t (new_entry t v)) = Inr (Some j))
      \<or> (t' = t\<lparr>entries := entries t @ [new_entry t v]\<rparr>
               \<and> find_by_pk t (pk_tuple t (new_entry t v)) = Inr None)" by simp
  then show ?thesis
  proof
    assume "\<exists>j<length (entries t). t' = t\<lparr>entries := (entries t)[j := new_entry t v]\<rparr>
               \<and> find_by_pk t (pk_tuple t (new_entry t v)) = Inr (Some j)"
    then show ?thesis by auto
  next
    assume "t' = t\<lparr>entries := entries t @ [new_entry t v]\<rparr>
               \<and> find_by_pk t (pk_tuple t (new_entry t v)) = Inr None"
    then have "\<forall>e\<in>set (entry_values t). \<exists>pk\<in>primary_key_names t. e pk \<noteq> pk_tuple t (new_entry t v) pk"
      using find_by_pk_loop_None[of "primary_key_names t" _ "entry_values t" 0]
      by (simp add: find_by_pk_def)
    then have "\<forall>e\<in>set (entries t). pk_tuple t e \<noteq> pk_tuple t (new_entry t v)"
      by (fastforce simp: pk_tuple_def restrict_eq_iff entry_values_def)
    with assms(2) show ?thesis by blast
  qed
qed

subsection \<open>Lightweight-transaction conflicts\<close>



















subsection \<open>Overwriting insert\<close>



subsection \<open>The limit of find\<close>

lemma get_indices_loop_bound:
  "0 < n \<Longrightarrow> length acc < n \<Longrightarrow> length (get_indices_loop (VInt (int n)) kw es idx acc) \<le> n"
proof (induction es arbitrary: idx acc)
  case Nil
  then show ?case by simp
next
  case (Cons e es)
  show ?case
  proof (cases "row_matches kw e")
    case True
    show ?thesis
    proof (cases "Suc (length acc) = n")
      case True
      with \<open>row_matches kw e\<close> show ?thesis by simp
    next
      case False
      with Cons.prems have "length (acc @ [idx]) < n" by simp
      from Cons.IH[OF Cons.prems(1) this] True False show ?thesis by simp
    qed
  next
    case False
    with Cons.prems Cons.IH[OF Cons.prems(1) Cons.prems(2)] show ?thesis by simp
  qed
qed

lemma find_items_length:
  "find_items t select indices = Inr rows \<Longrightarrow> length rows = length indices"
  by (induction indices arbitrary: rows) (auto split: sum.splits)

text \<open>Without a limit the scan returns the indices of all matching rows, in insertion
  order; the empty filter matches every row.\<close>

lemma filter_upt_Suc:
  "filter P [0..<Suc n] = (if P 0 then [0] else []) @ map Suc (filter (P \<circ> Suc) [0..<n])"
proof -
  have "[0..<Suc n] = 0 # map Suc [0..<n]"
    by (simp add: upt_conv_Cons map_Suc_upt del: upt_Suc)
  then show ?thesis by (simp add: filter_map del: upt_Suc)
qed

lemma get_indices_loop_unbounded:
  "get_indices_loop PyNone kw es idx acc =
     acc @ map (\<lambda>i. idx + i) (filter (\<lambda>i. row_matches kw (es ! i)) [0..<length es])"
proof (induction es arbitrary: idx acc)
  case Nil
  then show ?case by simp
next
  case (Cons e es)
  show ?case
    by (simp add: Cons.IH Let_def filter_upt_Suc o_def del: upt_Suc)
qed

lemma get_indices_unbounded:
  "get_indices_by_kwargs t PyNone filters =
     filter (\<lambda>i. row_matches filters (entry_values t ! i)) [0..<length (entries t)]"
  by (simp add: get_indices_by_kwargs_def get_indices_loop_unbounded row_matches_def
      entry_values_def)

text \<open>With a non-empty filter and a positive limit the scan does stop at the limit.\<close>

lemma find_limit_bound:
  assumes "filters \<noteq> []" "0 < n" "Table_find t filters (VInt (int n)) select = Inr rows"
  shows "length rows \<le> n"
proof -
  from assms(3) have "find_items t select (get_indices_by_kwargs t (VInt (int n)) filters) = Inr rows"
    by (auto simp: Table_find_def get_indices_pos_def split: if_splits)
  then have "length rows = length (get_indices_by_kwargs t (VInt (int n)) filters)"
    by (rule find_items_length)
  also have "\<dots> \<le> n"
    using assms(1,2) get_indices_loop_bound[of n "[]" filters "entry_values t" 0]
    by (simp add: get_indices_by_kwargs_def)
  finally show ?thesis .
qed

text \<open>
  C4. \<^verbatim>\<open>Table.find\<close> with the empty filter and limit 1 on the table \<open>users2\<close>, which
  stores the keys 1 and 2: \<^verbatim>\<open>_get_indices_by_kwargs\<close> returns
  \<^verbatim>\<open>range(len(self._entries))\<close> before it looks at the limit, and the result holds
  both rows.
\<close>

theorem find_ignores_limit_without_filters:
  "(case Table_find users2 [] (VInt 1) [''id''] of
      Inl e \<Rightarrow> None
    | Inr rows \<Rightarrow> Some (map (\<lambda>r. r ''id'') rows))
   = Some [Some (VInt 1), Some (VInt 2)]"
  by (simp add: example_defs Table_find_def get_indices_pos_def get_indices_by_kwargs_def
      get_item_by_idx_def)

text \<open>The limit is compared after a row is collected, so a limit of 0 is passed by as
  soon as the first row matches: here one row comes back.\<close>

lemma find_limit_zero_returns_a_row:
  "(case Table_find users2 [(''id'', VInt 1)] (VInt 0) [''id''] of
      Inl e \<Rightarrow> None
    | Inr rows \<Rightarrow> Some (map (\<lambda>r. r ''id'') rows))
   = Some [Some (VInt 1)]"
  by (simp add: example_defs Table_find_def get_indices_pos_def get_indices_by_kwargs_def
      get_item_by_idx_def row_matches_def)

subsection \<open>Collection operators\<close>

lemmas update_defs = Table_find_def get_indices_pos_def get_indices_by_kwargs_def
  get_item_by_idx_def row_matches_def Table_update_def get_indices_kw_def assign_value_def
  apply_cell_def set_cell_def mutate_cell_def alias_columns_def alias_table_def

text \<open>
  On one row whose list is its own, through \<^verbatim>\<open>Table.update\<close> and \<^verbatim>\<open>Table.find\<close>
  (the specification's scenario): insert key 1 with no tags, append \<open>[x, y]\<close>, prepend
  \<open>[w]\<close>, read \<open>[w, x, y]\<close>.
\<close>

lemma scenario_append_prepend:
  "(case Table_find
      (snd (Table_update
         (snd (Table_update
            (snd (Table_insert users [(''id'', VInt 1), (''tags'', VList [])] False))
            [(''id'', VInt 1)] [(''tags'', ''append'', VList [SStr ''x'', SStr ''y''])] False))
         [(''id'', VInt 1)] [(''tags'', ''prepend'', VList [SStr ''w''])] False))
      [(''id'', VInt 1)] PyNone [''tags''] of
      Inl e \<Rightarrow> None
    | Inr rows \<Rightarrow> Some (map (\<lambda>r. r ''tags'') rows))
   = Some [Some (VList [SStr ''w'', SStr ''x'', SStr ''y''])]"
  by (simp add: example_defs update_defs)

text \<open>On one row whose set is its own: adding \<open>{g}\<close> twice reads as adding it once,
  and removing the absent \<open>h\<close> afterwards changes nothing.\<close>

lemma scenario_add_remove:
  "(case Table_find
      (snd (Table_update
         (snd (Table_update
            (snd (Table_update
               (snd (Table_insert users [(''id'', VInt 1)] False))
               [(''id'', VInt 1)] [(''groups'', ''add'', VSet {|SStr ''g''|})] False))
            [(''id'', VInt 1)] [(''groups'', ''add'', VSet {|SStr ''g''|})] False))
         [(''id'', VInt 1)] [(''groups'', ''remove'', VSet {|SStr ''h''|})] False))
      [(''id'', VInt 1)] PyNone [''groups''] of
      Inl e \<Rightarrow> None
    | Inr rows \<Rightarrow> Some (map (\<lambda>r. r ''groups'') rows))
   = Some [Some (VSet {|SStr ''g''|})]"
  by (simp add: example_defs update_defs)

text \<open>
  C5. The table \<open>users2\<close> stores the keys 1 and 2. An update with the empty filter
  assigns the list \<open>[x]\<close> to the column \<open>tags\<close>: line 217 stores the one operand
  object in both rows. A second update with the empty filter appends \<open>[y]\<close>: line 219
  extends that one list in place, once for each matched row. Neither update raises,
  and both rows then read \<open>[x, y, y]\<close>, not the prior list extended with \<open>y\<close>.
\<close>

theorem bulk_append_extends_shared_list_twice:
  "fst (Table_update users2 [] [(''tags'', ''assign'', VList [SStr ''x''])] False) = None
   \<and> fst (Table_update
            (snd (Table_update users2 [] [(''tags'', ''assign'', VList [SStr ''x''])] False))
            [] [(''tags'', ''append'', VList [SStr ''y''])] False) = None
   \<and> (case Table_find
        (snd (Table_update
           (snd (Table_update users2 [] [(''tags'', ''assign'', VList [SStr ''x''])] False))
           [] [(''tags'', ''append'', VList [SStr ''y''])] False))
        [] PyNone [''id'', ''tags''] of
        Inl e \<Rightarrow> None
      | Inr rows \<Rightarrow> Some (map (\<lambda>r. (r ''id'', r ''tags'')) rows))
     = Some [(Some (VInt 1), Some (VList [SStr ''x'', SStr ''y'', SStr ''y''])),
             (Some (VInt 2), Some (VList [SStr ''x'', SStr ''y'', SStr ''y'']))]"
  by (simp add: example_defs update_defs)

text \<open>After the same bulk assignment, an append filtered on the key 1 shows in the
  row of the key 2 as well.\<close>

lemma filtered_append_changes_other_row:
  "(case Table_find
      (snd (Table_update
         (snd (Table_update users2 [] [(''tags'', ''assign'', VList [SStr ''x''])] False))
         [(''id'', VInt 1)] [(''tags'', ''append'', VList [SStr ''y''])] False))
      [] PyNone [''id'', ''tags''] of
      Inl e \<Rightarrow> None
    | Inr rows \<Rightarrow> Some (map (\<lambda>r. (r ''id'', r ''tags'')) rows))
   = Some [(Some (VInt 1), Some (VList [SStr ''x'', SStr ''y''])),
           (Some (VInt 2), Some (VList [SStr ''x'', SStr ''y'']))]"
  by (simp add: example_defs update_defs)

text \<open>
  A list column stored under another name than its attribute (\<open>alias_table\<close>):
  \<^verbatim>\<open>Table.update\<close> tests the assignment's name against the storage names and then
  indexes the column dict, whose keys are the attribute names, with it. An append
  under the attribute name is skipped without an error, and an append under the
  storage name raises \<^verbatim>\<open>KeyError\<close>; the stored list stays \<open>[x]\<close> either way.
\<close>

lemma aliased_column_append:
  "fst (Table_update alias_table [(''id'', VInt 1)] [(''skills'', ''append'', VList [SStr ''y''])] False) = None
   \<and> map (\<lambda>r. r ''user_skills'')
        (entry_values (snd (Table_update alias_table [(''id'', VInt 1)]
                              [(''skills'', ''append'', VList [SStr ''y''])] False)))
      = [Some (VList [SStr ''x''])]
   \<and> fst (Table_update alias_table [(''id'', VInt 1)] [(''user_skills'', ''append'', VList [SStr ''y''])] False)
      = Some KeyError
   \<and> map (\<lambda>r. r ''user_skills'')
        (entry_values (snd (Table_update alias_table [(''id'', VInt 1)]
                              [(''user_skills'', ''append'', VList [SStr ''y''])] False)))
      = [Some (VList [SStr ''x''])]"
  by (simp add: example_defs update_defs)

subsection \<open>The module-level row store\<close>

lemma flush_keeps_keyspaces: "keyspaces (flush s) = keyspaces s"
  by (simp add: flush_def)

lemma put_table_module_entries: "module_entries (put_table s ks tn t) = module_entries s"
  by (simp add: put_table_def split: option.splits)

text \<open>No statement ever puts a row into the module-level store: it is empty in every
  state the executor reaches from \<open>init_state\<close>.\<close>

lemma execute_keeps_module_store_empty:
  assumes "module_entries s = Map.empty"
  shows "module_entries (fst (snd (DMLQuery_execute s q stmt))) = Map.empty"
  using assms
  by (auto simp: DMLQuery_execute_def lookup_items_def null_fields_def put_table_module_entries
      split: sum.splits option.splits stmt_class.splits prod.splits)

text \<open>With the module-level store empty, a delete statement with field targets leaves
  the whole state as it was.\<close>

lemma field_delete_is_noop:
  assumes "module_entries s = Map.empty" "stmt_class stmt = DeleteStatement" "stmt_fields stmt \<noteq> []"
  shows "fst (snd (DMLQuery_execute s q stmt)) = s"
  using assms
  by (auto simp: DMLQuery_execute_def lookup_items_def null_fields_def
      split: sum.splits option.splits prod.splits)

text \<open>
  C6. In \<open>demo_state\<close> the table \<open>users\<close> of the keyspace \<open>fake\<close> stores one row.
  \<^verbatim>\<open>flush()\<close> rebinds the module-level \<^verbatim>\<open>_entries\<close> only; the rows live in
  \<^verbatim>\<open>Table._entries\<close>, and a find on the table after the flush returns the same row.
\<close>

theorem flush_leaves_table_rows:
  "(case find_in demo_state ''fake'' ''users'' [] PyNone [''id'', ''name''] of
      Inl e \<Rightarrow> None
    | Inr rows \<Rightarrow> Some (map (\<lambda>r. (r ''id'', r ''name'')) rows))
     = Some [(Some (VInt 1), Some (VStr ''a''))]
   \<and> (case find_in (flush demo_state) ''fake'' ''users'' [] PyNone [''id'', ''name''] of
      Inl e \<Rightarrow> None
    | Inr rows \<Rightarrow> Some (map (\<lambda>r. (r ''id'', r ''name'')) rows))
     = Some [(Some (VInt 1), Some (VStr ''a''))]"
  by (simp add: example_defs executor_defs)

subsection \<open>A table without primary-key columns\<close>

text \<open>With no primary-key name the comparison loop of \<^verbatim>\<open>_find_by_pk\<close> is empty and the
  first stored row counts as a match.\<close>

lemma find_by_pk_without_key:
  "primary_key_names t = {} \<Longrightarrow> entries t \<noteq> [] \<Longrightarrow> find_by_pk t p = Inr (Some 0)"
  by (cases "entries t") (simp_all add: find_by_pk_def entry_values_def)

text \<open>
  C8. The table \<open>log_table\<close> declares no primary-key column. Two inserts into the
  empty table both succeed; the second replaces the row of the first, and the table
  holds one row, not two.
\<close>

theorem zero_pk_insert_overwrites:
  "primary_key_names log_table = {}
   \<and> fst (Table_insert log_table [(''note'', VStr ''a'')] False) = None
   \<and> fst (Table_insert (snd (Table_insert log_table [(''note'', VStr ''a'')] False))
            [(''note'', VStr ''b'')] False) = None
   \<and> map (\<lambda>r. r ''note'')
        (entry_values (snd (Table_insert (snd (Table_insert log_table [(''note'', VStr ''a'')] False))
                         [(''note'', VStr ''b'')] False)))
      = [Some (VStr ''b'')]"
  by (simp add: example_defs)

subsection \<open>Delete statements with field targets\<close>

text \<open>
  C9. In \<open>demo_state\<close> the stored row has the key 1 and the name \<open>a\<close>. Executing the
  delete statement with the filter \<open>id = 1\<close> and the field target \<open>name\<close> raises
  nothing and changes no row: \<^verbatim>\<open>lookup_items\<close> scans the module-level \<^verbatim>\<open>_entries\<close>,
  which holds no rows, and the stored row keeps its name.
\<close>

theorem field_delete_changes_no_row:
  "fst (DMLQuery_execute demo_state fake_query delete_name) = None
   \<and> (case find_in (fst (snd (DMLQuery_execute demo_state fake_query delete_name)))
             ''fake'' ''users'' [(''id'', VInt 1)] PyNone [''id'', ''name''] of
      Inl e \<Rightarrow> None
    | Inr rows \<Rightarrow> Some (map (\<lambda>r. (r ''id'', r ''name'')) rows))
     = Some [(Some (VInt 1), Some (VStr ''a''))]"
  by (simp add: example_defs executor_defs)

subsection \<open>Adding a table\<close>

text \<open>
  C10. \<^verbatim>\<open>Keyspace.add_table\<close> under a name that may already be bound never fails and
  binds the name to a freshly constructed table: the table has the given schema and no
  rows, whatever was stored under that name before, and every other binding of the
  keyspace is the one it was.
\<close>

theorem add_table_replaces:
  "get_table (add_table ks n flds dm) n = Inr (Table_init n flds dm)
   \<and> entries (Table_init n flds dm) = []
   \<and> columns (Table_init n flds dm) = flds
   \<and> tables (add_table ks n flds dm) = (tables ks)(n \<mapsto> Table_init n flds dm)"
  by (simp add: add_table_def get_table_def Table_init_def)

end
